theory Spec2Isabelle
  imports Complex_Main "HOL-Library.Char_ord" "HOL-Library.List_Lexorder"
begin

section \<open>Python values, exceptions and strings\<close>

text \<open>
  The server passes dynamically typed values around: decoded JSON (status records, doc
  fragments), the values kept in the cache and the result dictionaries of the tools.
  They are modelled by one datatype; a dictionary is an association list in insertion
  order, read with \<open>map_of\<close>.
\<close>

datatype pyval =
    PNone
  | PBool bool
  | PInt int
  | PStr string
  | PList "pyval list"
  | PDict "(string \<times> pyval) list"

text \<open>Python's truth value of an object, as tested by \<open>if x:\<close> and \<open>if not x:\<close>.\<close>

fun truthy :: "pyval \<Rightarrow> bool" where
  "truthy PNone = False"
| "truthy (PBool b) = b"
| "truthy (PInt i) = (i \<noteq> 0)"
| "truthy (PStr s) = (s \<noteq> [])"
| "truthy (PList xs) = (xs \<noteq> [])"
| "truthy (PDict d) = (d \<noteq> [])"

text \<open>
  Exceptions are values. Only instances of subclasses of \<open>Exception\<close> are modelled (the
  ones an \<open>except Exception\<close> clause catches); each carries the text that \<open>str(e)\<close> gives.
\<close>

datatype exn =
    ClientError string
  | JSONDecodeError string
  | AttributeError string
  | TypeError string
  | OSError string

fun str_exn :: "exn \<Rightarrow> string" where
  "str_exn (ClientError m) = m"
| "str_exn (JSONDecodeError m) = m"
| "str_exn (AttributeError m) = m"
| "str_exn (TypeError m) = m"
| "str_exn (OSError m) = m"

text \<open>\<open>d.get(key, default)\<close>: an attribute error on anything that is not a dictionary.\<close>

fun py_get :: "pyval \<Rightarrow> string \<Rightarrow> pyval \<Rightarrow> exn + pyval" where
  "py_get (PDict d) k dflt = Inr (case map_of d k of Some v \<Rightarrow> v | None \<Rightarrow> dflt)"
| "py_get _ k dflt = Inl (AttributeError ''object has no attribute get'')"

text \<open>The string methods the server uses: \<open>startswith\<close>, \<open>endswith\<close>, \<open>split\<close>, \<open>join\<close>,
  \<open>lower\<close>, \<open>strip\<close>, \<open>lstrip\<close> and \<open>rstrip\<close>.\<close>

definition startswith :: "string \<Rightarrow> string \<Rightarrow> bool" where
  "startswith s p = (take (length p) s = p)"

definition endswith :: "string \<Rightarrow> string \<Rightarrow> bool" where
  "endswith s p = (length p \<le> length s \<and> drop (length s - length p) s = p)"

fun split_on :: "char \<Rightarrow> string \<Rightarrow> string list" where
  "split_on c [] = [[]]"
| "split_on c (x # xs) =
     (if x = c then [] # split_on c xs
      else (case split_on c xs of
              w # ws \<Rightarrow> (x # w) # ws
            | [] \<Rightarrow> [[x]]))"

fun join :: "string \<Rightarrow> string list \<Rightarrow> string" where
  "join sep [] = []"
| "join sep [x] = x"
| "join sep (x # y # ys) = x @ sep @ join sep (y # ys)"

text \<open>Strings are lists of 8-bit characters; \<open>lower\<close> maps the letters \<open>A\<close> to \<open>Z\<close>
  and leaves every other character as it is, and \<open>strip\<close> removes the ASCII
  whitespace of \<open>str.isspace\<close>.\<close>

definition lower_char :: "char \<Rightarrow> char" where
  "lower_char c =
     (case map_of (zip ''ABCDEFGHIJKLMNOPQRSTUVWXYZ'' ''abcdefghijklmnopqrstuvwxyz'') c of
        Some l \<Rightarrow> l
      | None \<Rightarrow> c)"

definition lower :: "string \<Rightarrow> string" where
  "lower s = map lower_char s"

definition is_space :: "char \<Rightarrow> bool" where
  "is_space c = (c \<in> set [CHR '' '', CHR 0x09, CHR 0x0A, CHR 0x0B, CHR 0x0C, CHR 0x0D,
                           CHR 0x1C, CHR 0x1D, CHR 0x1E, CHR 0x1F])"

definition lstrip_chars :: "(char \<Rightarrow> bool) \<Rightarrow> string \<Rightarrow> string" where
  "lstrip_chars P s = dropWhile P s"

definition rstrip_chars :: "(char \<Rightarrow> bool) \<Rightarrow> string \<Rightarrow> string" where
  "rstrip_chars P s = rev (dropWhile P (rev s))"

definition strip :: "string \<Rightarrow> string" where
  "strip s = rstrip_chars is_space (lstrip_chars is_space s)"

section \<open>Parsed HTML\<close>

text \<open>
  \<open>BeautifulSoup(html, "html.parser")\<close> is library code: the parser is a parameter
  \<open>bs\<close> of every extractor, from the text to the list of top-level nodes of the soup.
  A tag has its name, its attributes other than \<open>class\<close>, its list of classes and its
  children; a \<open>NavigableString\<close> is a piece of text; a \<open>Comment\<close> stands for the strings
  that \<open>get_text\<close> leaves out.
\<close>

datatype node =
    Tag string "(string \<times> string) list" "string list" "node list"
  | NavigableString string
  | Comment string

fun is_tag :: "string \<Rightarrow> node \<Rightarrow> bool" where
  "is_tag nm (Tag n attrs cls ch) = (n = nm)"
| "is_tag nm (NavigableString s) = False"
| "is_tag nm (Comment s) = False"

fun has_class :: "string \<Rightarrow> node \<Rightarrow> bool" where
  "has_class c (Tag n attrs cls ch) = (c \<in> set cls)"
| "has_class c (NavigableString s) = False"
| "has_class c (Comment s) = False"

text \<open>\<open>tag.get(key, default)\<close>.\<close>

fun attr_get :: "node \<Rightarrow> string \<Rightarrow> string \<Rightarrow> string" where
  "attr_get (Tag n attrs cls ch) k dflt = (case map_of attrs k of Some v \<Rightarrow> v | None \<Rightarrow> dflt)"
| "attr_get (NavigableString s) k dflt = dflt"
| "attr_get (Comment s) k dflt = dflt"

text \<open>Every node below a list of siblings, in document order, each with the siblings
  that follow it.\<close>

fun walk :: "node list \<Rightarrow> (node \<times> node list) list" where
  "walk [] = []"
| "walk (Tag n attrs cls ch # rest) = (Tag n attrs cls ch, rest) # walk ch @ walk rest"
| "walk (NavigableString s # rest) = (NavigableString s, rest) # walk rest"
| "walk (Comment s # rest) = (Comment s, rest) # walk rest"

fun children :: "node \<Rightarrow> node list" where
  "children (Tag n attrs cls ch) = ch"
| "children (NavigableString s) = []"
| "children (Comment s) = []"

text \<open>\<open>find_all\<close>, \<open>find\<close> and \<open>find_next_sibling\<close>, with the test on the tag as a
  predicate.\<close>

definition soup_find_all :: "(node \<Rightarrow> bool) \<Rightarrow> node list \<Rightarrow> (node \<times> node list) list" where
  "soup_find_all P soup = filter (\<lambda>c. P (fst c)) (walk soup)"

definition find_all :: "(node \<Rightarrow> bool) \<Rightarrow> node \<Rightarrow> node list" where
  "find_all P el = map fst (soup_find_all P (children el))"

definition find_first :: "(node \<Rightarrow> bool) \<Rightarrow> node \<Rightarrow> node option" where
  "find_first P el = (case find_all P el of [] \<Rightarrow> None | x # xs \<Rightarrow> Some x)"

definition find_next_sibling :: "(node \<Rightarrow> bool) \<Rightarrow> node list \<Rightarrow> node option" where
  "find_next_sibling P following = List.find P following"

text \<open>\<open>get_text(strip=True)\<close>: the text strings below the tag, each stripped, the empty
  ones dropped, concatenated.\<close>

fun node_string :: "node \<Rightarrow> string option" where
  "node_string (NavigableString s) = Some s"
| "node_string (Tag n attrs cls ch) = None"
| "node_string (Comment s) = None"

definition get_text_strip :: "node \<Rightarrow> string" where
  "get_text_strip el =
     concat (filter (\<lambda>s. s \<noteq> [])
       (map strip (List.map_filter node_string (map fst (walk (children el))))))"

section \<open>Extraction\<close>

subsection \<open>Directory listing parser\<close>

fun listing_loop :: "node list \<Rightarrow> string list \<Rightarrow> string list" where
  "listing_loop [] names = names"
| "listing_loop (a # as) names =
     (let href = attr_get a ''href'' ''''
      in if startswith href ''?'' \<or> startswith href ''/'' \<or> href = ''../''
         then listing_loop as names
         else if endswith href ''/''
           then listing_loop as (names @ [rstrip_chars (\<lambda>c. c = CHR ''/'') href])
           else listing_loop as names)"

definition parse_directory_listing :: "(string \<Rightarrow> node list) \<Rightarrow> string \<Rightarrow> string list" where
  "parse_directory_listing bs html =
     listing_loop (map fst (soup_find_all (is_tag ''a'') (bs html))) []"

subsection \<open>HTML-to-text extraction for odoc content\<close>

definition paragraphs_text :: "node list \<Rightarrow> string" where
  "paragraphs_text ps = strip (join '' '' (map get_text_strip ps))"

definition extract_preamble_text :: "(string \<Rightarrow> node list) \<Rightarrow> string \<Rightarrow> string" where
  "extract_preamble_text bs html =
     (if html = [] then []
      else paragraphs_text (map fst (soup_find_all (is_tag ''p'') (bs html))))"

text \<open>The chain of tests on the anchor of a spec, in the order of the source.\<close>

definition categorize :: "string \<Rightarrow> string \<times> string" where
  "categorize anchor =
     (if startswith anchor ''val-'' then (''val'', drop 4 anchor)
      else if startswith anchor ''type-'' then (''type'', drop 5 anchor)
      else if startswith anchor ''module-type-'' then (''module type'', drop 12 anchor)
      else if startswith anchor ''module-'' then (''module'', drop 7 anchor)
      else if startswith anchor ''exception-'' then (''exception'', drop 10 anchor)
      else if startswith anchor ''class-'' then (''class'', drop 6 anchor)
      else (''other'', anchor))"

definition is_spec_div :: "node \<Rightarrow> bool" where
  "is_spec_div el = (is_tag ''div'' el \<and> has_class ''spec'' el)"

definition is_spec_doc_div :: "node \<Rightarrow> bool" where
  "is_spec_doc_div el = (is_tag ''div'' el \<and> has_class ''spec-doc'' el)"

text \<open>The body of the loop of \<open>extract_specs\<close> after the test of the limit: the item
  of one spec container, given with the siblings that follow it.\<close>

definition spec_item :: "node \<times> node list \<Rightarrow> pyval" where
  "spec_item c =
     (let spec_div = fst c;
          anchor = attr_get spec_div ''id'' '''';
          signature = (case find_first (is_tag ''code'') spec_div of
                         Some code \<Rightarrow> get_text_strip code
                       | None \<Rightarrow> '''');
          doc = (case find_next_sibling is_spec_doc_div (snd c) of
                   Some doc_div \<Rightarrow> paragraphs_text (find_all (is_tag ''p'') doc_div)
                 | None \<Rightarrow> '''');
          (kind, name) = categorize anchor
      in PDict [(''kind'', PStr kind), (''name'', PStr name),
                (''signature'', PStr signature), (''doc'', PStr doc)])"

fun specs_loop :: "int \<Rightarrow> (node \<times> node list) list \<Rightarrow> pyval list \<Rightarrow> pyval list \<times> bool" where
  "specs_loop limit [] items = (items, False)"
| "specs_loop limit (c # rest) items =
     (if int (length items) \<ge> limit then (items, True)
      else specs_loop limit rest (items @ [spec_item c]))"

definition extract_specs :: "(string \<Rightarrow> node list) \<Rightarrow> string \<Rightarrow> int \<Rightarrow> pyval list \<times> bool" where
  "extract_specs bs html limit =
     (if html = [] then ([], False)
      else specs_loop limit (soup_find_all is_spec_div (bs html)) [])"

text \<open>The modules listed by one \<open>ul\<close> or \<open>dl\<close> element: one entry for each \<open>li\<close> below
  it that holds a link.\<close>

definition module_entry :: "node \<Rightarrow> node \<Rightarrow> pyval" where
  "module_entry li link =
     (let mod_name = get_text_strip link;
          full_text = get_text_strip li;
          synopsis = strip (lstrip_chars (\<lambda>c. c = CHR '':'')
                       (strip (drop (length mod_name) full_text)))
      in PDict [(''name'', PStr mod_name), (''synopsis'', PStr synopsis)])"

fun modules_loop :: "node list \<Rightarrow> pyval list \<Rightarrow> pyval list" where
  "modules_loop [] modules = modules"
| "modules_loop (li # lis) modules =
     (case find_first (is_tag ''a'') li of
        Some link \<Rightarrow> modules_loop lis (modules @ [module_entry li link])
      | None \<Rightarrow> modules_loop lis modules)"

definition list_modules :: "node \<Rightarrow> pyval list" where
  "list_modules element = modules_loop (find_all (is_tag ''li'') element) []"

text \<open>A library under construction is the pair of its name and its modules; it becomes
  the dictionary \<open>{"name": ..., "modules": ...}\<close>.\<close>

definition lib_dict :: "string \<times> pyval list \<Rightarrow> pyval" where
  "lib_dict l = PDict [(''name'', PStr (fst l)), (''modules'', PList (snd l))]"

fun libraries_loop ::
  "node list \<Rightarrow> (string \<times> pyval list) list \<Rightarrow> (string \<times> pyval list) option
     \<Rightarrow> (string \<times> pyval list) list" where
  "libraries_loop [] libraries current_lib =
     (case current_lib of Some l \<Rightarrow> libraries @ [l] | None \<Rightarrow> libraries)"
| "libraries_loop (NavigableString s # els) libraries current_lib =
     libraries_loop els libraries current_lib"
| "libraries_loop (Comment s # els) libraries current_lib =
     libraries_loop els libraries current_lib"
| "libraries_loop (Tag n attrs cls ch # els) libraries current_lib =
     (let element = Tag n attrs cls ch;
          libraries1 = (if n = ''h2''
                        then (case current_lib of Some l \<Rightarrow> libraries @ [l] | None \<Rightarrow> libraries)
                        else libraries);
          current1 = (if n = ''h2'' then Some (get_text_strip element, []) else current_lib);
          current2 =
            (if n = ''ul'' \<or> n = ''dl''
             then (let modules = list_modules element
                   in if modules \<noteq> []
                      then (case current1 of
                              None \<Rightarrow> Some (''default'', modules)
                            | Some l \<Rightarrow> Some (fst l, snd l @ modules))
                      else current1)
             else current1)
      in libraries_loop els libraries1 current2)"

definition extract_package_libraries :: "(string \<Rightarrow> node list) \<Rightarrow> string \<Rightarrow> pyval list" where
  "extract_package_libraries bs html =
     (if html = [] then []
      else map lib_dict (libraries_loop (bs html) [] None))"

text \<open>The test \<open>element.name in ("ul", "dl")\<close> of that loop, as a predicate on nodes.\<close>

definition is_list_element :: "node \<Rightarrow> bool" where
  "is_list_element el = (is_tag ''ul'' el \<or> is_tag ''dl'' el)"

subsection \<open>Module file matcher\<close>

fun exact_loop :: "string \<Rightarrow> string list \<Rightarrow> string option" where
  "exact_loop suffix [] = None"
| "exact_loop suffix (f # fs) = (if endswith f suffix then Some f else exact_loop suffix fs)"

fun lower_loop :: "string \<Rightarrow> string list \<Rightarrow> string option" where
  "lower_loop suffix_lower [] = None"
| "lower_loop suffix_lower (f # fs) =
     (if endswith (lower f) suffix_lower then Some f else lower_loop suffix_lower fs)"

definition find_module_file :: "string list \<Rightarrow> string \<Rightarrow> string option" where
  "find_module_file files module_path =
     (let parts = split_on CHR ''.'' module_path;
          suffix = join ''/'' parts @ ''/index.html''
      in case exact_loop suffix files of
           Some f \<Rightarrow> Some f
         | None \<Rightarrow> (let suffix_lower = lower suffix in lower_loop suffix_lower files))"

text \<open>The hint of \<open>get_module_doc\<close> when no file matches: the loop that fills the set
  \<open>top_modules\<close>, then \<open>sorted(top_modules)[:30]\<close>.\<close>

fun top_modules_loop :: "string list \<Rightarrow> string set \<Rightarrow> string set" where
  "top_modules_loop [] top_modules = top_modules"
| "top_modules_loop (f # fs) top_modules =
     (if startswith f ''doc/'' \<and> endswith f ''/index.html''
      then (let parts = split_on CHR ''/'' (drop 4 f)
            in if length parts \<ge> 3
               then top_modules_loop fs (insert (parts ! 1) top_modules)
               else top_modules_loop fs top_modules)
      else top_modules_loop fs top_modules)"

definition available_top_level :: "string list \<Rightarrow> string list" where
  "available_top_level files = take 30 (sorted_list_of_set (top_modules_loop files {}))"
subsection \<open>The prefix table of the specification\<close>

text \<open>
  The specification describes the classification of a spec container as a
  longest-prefix match of its identifier against a table of prefixes. This is that
  description, to be compared with \<open>categorize\<close>: of the entries whose prefix starts the
  identifier, the one with the longest prefix gives the kind, and the name is the
  identifier without that prefix; with no such entry the kind is \<open>other\<close> and the name
  the whole identifier.
\<close>

definition prefix_table :: "(string \<times> string) list" where
  "prefix_table =
     [(''val-'', ''val''), (''type-'', ''type''), (''module-type-'', ''module type''),
      (''module-'', ''module''), (''exception-'', ''exception''), (''class-'', ''class'')]"

fun longest_entry :: "(string \<times> string) list \<Rightarrow> string \<times> string \<Rightarrow> string \<times> string" where
  "longest_entry [] best = best"
| "longest_entry (e # es) best =
     longest_entry es (if length (fst e) > length (fst best) then e else best)"

definition longest_prefix_match :: "(string \<times> string) list \<Rightarrow> string \<Rightarrow> string \<times> string" where
  "longest_prefix_match table ident =
     (case filter (\<lambda>e. startswith ident (fst e)) table of
        [] \<Rightarrow> (''other'', ident)
      | m # ms \<Rightarrow> (let e = longest_entry ms m in (snd e, drop (length (fst e)) ident)))"

subsection \<open>Sample pages\<close>

text \<open>Three pages and what the parser makes of them: a module page with three spec
  containers, a package page with a flat list of modules, and a directory listing.\<close>

definition specs_page :: string where
  "specs_page = ''<div class=spec id=module-type-Foo><code>module type Foo</code></div>'' @
     ''<div class=spec-doc><p>A signature.</p></div>'' @
     ''<div class=spec id=val-x><code>val x : int</code></div><div class=spec id=Bar></div>''"

definition specs_soup :: "node list" where
  "specs_soup =
     [Tag ''div'' [(''id'', ''module-type-Foo'')] [''spec'']
        [Tag ''code'' [] [] [NavigableString ''module type Foo'']],
      Tag ''div'' [] [''spec-doc''] [Tag ''p'' [] [] [NavigableString ''A signature.'']],
      Tag ''div'' [(''id'', ''val-x'')] [''spec'']
        [Tag ''code'' [] [] [NavigableString ''val x : int'']],
      Tag ''div'' [(''id'', ''Bar'')] [''spec''] []]"

definition modules_page :: string where
  "modules_page = ''<ul><li><a href=Lwt/index.html>Lwt</a>: Promises</li>'' @
     ''<li><a href=Lwt_unix/index.html>Lwt_unix</a></li><li>no link</li></ul>''"

definition modules_soup :: "node list" where
  "modules_soup =
     [Tag ''ul'' [] []
        [Tag ''li'' [] []
           [Tag ''a'' [(''href'', ''Lwt/index.html'')] [] [NavigableString ''Lwt''],
            NavigableString '': Promises''],
         Tag ''li'' [] []
           [Tag ''a'' [(''href'', ''Lwt_unix/index.html'')] [] [NavigableString ''Lwt_unix'']],
         Tag ''li'' [] [] [NavigableString ''no link'']]]"

definition listing_page :: string where
  "listing_page = ''<a href=../>Parent Directory</a><a href=?C=N>Name</a>'' @
     ''<a href=5.7.0/>5.7.0/</a><a href=5.9.1/>5.9.1/</a><a href=readme.txt>readme.txt</a>''"

definition listing_soup :: "node list" where
  "listing_soup =
     [Tag ''a'' [(''href'', ''../'')] [] [NavigableString ''Parent Directory''],
      Tag ''a'' [(''href'', ''?C=N'')] [] [NavigableString ''Name''],
      Tag ''a'' [(''href'', ''5.7.0/'')] [] [NavigableString ''5.7.0/''],
      Tag ''a'' [(''href'', ''5.9.1/'')] [] [NavigableString ''5.9.1/''],
      Tag ''a'' [(''href'', ''readme.txt'')] [] [NavigableString ''readme.txt'']]"

definition sample_bs :: "string \<Rightarrow> node list" where
  "sample_bs html =
     (if html = specs_page then specs_soup
      else if html = modules_page then modules_soup
      else if html = listing_page then listing_soup
      else [NavigableString html])"


subsection \<open>The hint list of the specification\<close>

text \<open>
  The specification describes the hint list so: every artifact path that starts with
  the documentation root and whose final segment is the index filename, with at least
  one path segment between the root and the filename; of each the second path segment
  after the root; deduplicated, sorted, at most the first 30. This is that description,
  to be compared with \<open>available_top_level\<close>; the least number \<open>m\<close> of segments
  between the root and the filename is a parameter, 1 in the specification.
\<close>

definition segments_after_root :: "string \<Rightarrow> string list" where
  "segments_after_root f = split_on CHR ''/'' (drop 4 f)"

definition spec_hint_candidates :: "nat \<Rightarrow> string list \<Rightarrow> string list" where
  "spec_hint_candidates m files =
     map (\<lambda>f. segments_after_root f ! 1)
       (filter (\<lambda>f. startswith f ''doc/'' \<and> endswith f ''/index.html''
                     \<and> m \<le> length (butlast (segments_after_root f))) files)"

definition spec_hint :: "nat \<Rightarrow> string list \<Rightarrow> string list" where
  "spec_hint m files = take 30 (sort (remdups (spec_hint_candidates m files)))"
section \<open>The world: cache, clock, network, local files\<close>

text \<open>
  What \<open>session.get(url)\<close> gives: the transport raises, or a response arrives with its
  status and with what reading the body as text and as JSON produces.
\<close>

record response =
  resp_status :: int
  resp_text :: "exn + string"
  resp_json :: "exn + pyval"

type_synonym path = "string list"

text \<open>
  The module's global state and its surroundings. \<open>cache\<close> is \<open>_cache\<close>, from a key to
  the pair of the value and its expiry time. \<open>clock\<close> lists the successive readings of
  \<open>time.time()\<close> and \<open>ticks\<close> counts the readings made. \<open>session_get\<close> is the network
  and \<open>requests\<close> records every URL asked of it. \<open>html_parser\<close> is \<open>BeautifulSoup\<close> and
  \<open>json_loads\<close> is \<open>json.loads\<close>. \<open>find_latest_version\<close> is the first component of
  what the function of that name in module \<open>version_utils\<close> returns; that module is
  not among the sources, so the function is a parameter. \<open>local_docs_root\<close> is
  \<open>_local_docs_root\<close>, a path being the list of its parts, and the \<open>fs\<close> fields are the
  file system as \<open>pathlib\<close> shows it: \<open>is_dir\<close>, the names \<open>iterdir\<close> lists, the paths
  below a directory that \<open>rglob("index.html.json")\<close> finds (relative to it), \<open>is_file\<close>
  and \<open>read_text\<close>.
\<close>

record world =
  cache :: "string \<Rightarrow> (pyval \<times> real) option"
  clock :: "nat \<Rightarrow> real"
  ticks :: nat
  session_get :: "string \<Rightarrow> exn + response"
  requests :: "string list"
  html_parser :: "string \<Rightarrow> node list"
  json_loads :: "string \<Rightarrow> exn + pyval"
  find_latest_version :: "string list \<Rightarrow> string option"
  local_docs_root :: "path option"
  fs_is_dir :: "path \<Rightarrow> bool"
  fs_iterdir :: "path \<Rightarrow> exn + string list"
  fs_rglob :: "path \<Rightarrow> exn + path list"
  fs_is_file :: "path \<Rightarrow> bool"
  fs_read_text :: "path \<Rightarrow> exn + string"

definition time_time :: "world \<Rightarrow> real \<times> world" where
  "time_time w = (clock w (ticks w), w\<lparr>ticks := Suc (ticks w)\<rparr>)"

text \<open>Sequencing of steps that may raise: the first exception ends the sequence, with
  the state reached.\<close>

definition and_then ::
  "(exn + 'a) \<times> world \<Rightarrow> ('a \<Rightarrow> world \<Rightarrow> (exn + 'b) \<times> world) \<Rightarrow> (exn + 'b) \<times> world" where
  "and_then r f = (case r of (Inl e, w) \<Rightarrow> (Inl e, w) | (Inr x, w) \<Rightarrow> f x w)"

definition sum_then :: "exn + 'a \<Rightarrow> ('a \<Rightarrow> exn + 'b) \<Rightarrow> exn + 'b" where
  "sum_then r f = (case r of Inl e \<Rightarrow> Inl e | Inr x \<Rightarrow> f x)"

text \<open>\<open>try: ... except Exception as e: return {"error": f"<msg>{e}"}\<close> around the body
  of a tool.\<close>

definition error_result :: "string \<Rightarrow> pyval" where
  "error_result msg = PDict [(''error'', PStr msg)]"

definition try_except :: "string \<Rightarrow> (exn + pyval) \<times> world \<Rightarrow> (exn + pyval) \<times> world" where
  "try_except msg r =
     (case r of
        (Inl e, w) \<Rightarrow> (Inr (error_result (msg @ str_exn e)), w)
      | (Inr v, w) \<Rightarrow> (Inr v, w))"

subsection \<open>Simple TTL cache\<close>

text \<open>
  \<open>entry and entry[1] > time.time()\<close>: the clock is read only when the key has an entry
  (a pair is always true). An absent result is Python's \<open>None\<close>.
\<close>

definition cache_get :: "string \<Rightarrow> world \<Rightarrow> pyval \<times> world" where
  "cache_get key w =
     (case cache w key of
        None \<Rightarrow> (PNone, w)
      | Some entry \<Rightarrow>
          (let (now, w1) = time_time w
           in if snd entry > now then (fst entry, w1) else (PNone, w1)))"

definition cache_set :: "string \<Rightarrow> pyval \<Rightarrow> real \<Rightarrow> world \<Rightarrow> world" where
  "cache_set key v ttl w =
     (let (now, w1) = time_time w
      in w1\<lparr>cache := (cache w1)(key \<mapsto> (v, now + ttl))\<rparr>)"

subsection \<open>Fetching helpers\<close>

text \<open>
  \<open>fetch_text\<close> and \<open>fetch_json\<close> have no exception handler: what \<open>session.get\<close> or
  the reading of the body raises leaves the function. An absent result is \<open>None\<close>.
\<close>

definition fetch_text :: "string \<Rightarrow> world \<Rightarrow> (exn + string option) \<times> world" where
  "fetch_text url w =
     (let w1 = w\<lparr>requests := requests w @ [url]\<rparr>
      in case session_get w url of
           Inl e \<Rightarrow> (Inl e, w1)
         | Inr resp \<Rightarrow>
             if resp_status resp \<noteq> 200 then (Inr None, w1)
             else (case resp_text resp of
                     Inl e \<Rightarrow> (Inl e, w1)
                   | Inr t \<Rightarrow> (Inr (Some t), w1)))"

definition fetch_json :: "string \<Rightarrow> world \<Rightarrow> (exn + pyval) \<times> world" where
  "fetch_json url w =
     (let w1 = w\<lparr>requests := requests w @ [url]\<rparr>
      in case session_get w url of
           Inl e \<Rightarrow> (Inl e, w1)
         | Inr resp \<Rightarrow>
             if resp_status resp \<noteq> 200 then (Inr PNone, w1)
             else (case resp_json resp of
                     Inl e \<Rightarrow> (Inl e, w1)
                   | Inr v \<Rightarrow> (Inr v, w1)))"

subsection \<open>Version resolution, status and doc JSON\<close>

definition SAGE_BASE :: string where
  "SAGE_BASE = ''https://sage.ci.dev/current/p''"

text \<open>
  The cache holds the version list as a list of strings, since only \<open>resolve_version\<close>
  writes under its keys; likewise the \<open>files\<close> of a status record are a list of strings
  in the format of the backend, and \<open>find_module_file\<close> is declared on \<open>List[str]\<close>.
  \<open>str_list\<close> reads such a value. A value of any other shape lies outside that format:
  the model has the code raise a type error on it, inside the \<open>try\<close> block of the tool.
\<close>

fun the_str :: "pyval \<Rightarrow> string option" where
  "the_str (PStr s) = Some s"
| "the_str PNone = None"
| "the_str (PBool b) = None"
| "the_str (PInt i) = None"
| "the_str (PList xs) = None"
| "the_str (PDict d) = None"

fun str_list :: "pyval \<Rightarrow> exn + string list" where
  "str_list (PList xs) =
     (if list_all (\<lambda>x. the_str x \<noteq> None) xs then Inr (List.map_filter the_str xs)
      else Inl (TypeError ''expected a string''))"
| "str_list PNone = Inl (TypeError ''expected a list of strings'')"
| "str_list (PBool b) = Inl (TypeError ''expected a list of strings'')"
| "str_list (PInt i) = Inl (TypeError ''expected a list of strings'')"
| "str_list (PStr s) = Inl (TypeError ''expected a list of strings'')"
| "str_list (PDict d) = Inl (TypeError ''expected a list of strings'')"

definition latest_of :: "string list \<Rightarrow> world \<Rightarrow> (exn + string option) \<times> world" where
  "latest_of versions w =
     (if versions = [] then (Inr None, w) else (Inr (find_latest_version w versions), w))"

definition resolve_version ::
  "string \<Rightarrow> string option \<Rightarrow> world \<Rightarrow> (exn + string option) \<times> world" where
  "resolve_version package version w =
     (if (case version of Some v \<Rightarrow> v \<noteq> [] | None \<Rightarrow> False) then (Inr version, w)
      else
        (let cache_key = ''versions:'' @ package;
             (versions, w1) = cache_get cache_key w
         in if versions = PNone
            then and_then (fetch_text (SAGE_BASE @ ''/'' @ package @ ''/'') w1)
                   (\<lambda>html w2.
                      case html of
                        None \<Rightarrow> (Inr None, w2)
                      | Some page \<Rightarrow>
                          (let parsed = parse_directory_listing (html_parser w2) page;
                               w3 = cache_set cache_key (PList (map PStr parsed)) 1800 w2
                           in latest_of parsed w3))
            else and_then (str_list versions, w1) latest_of))"

definition get_status :: "string \<Rightarrow> string \<Rightarrow> world \<Rightarrow> (exn + pyval) \<times> world" where
  "get_status package version w =
     (let cache_key = ''status:'' @ package @ ''/'' @ version;
          (cached, w1) = cache_get cache_key w
      in if cached \<noteq> PNone then (Inr cached, w1)
         else and_then
                (fetch_json (SAGE_BASE @ ''/'' @ package @ ''/'' @ version @ ''/status.json'') w1)
                (\<lambda>data w2.
                   if data \<noteq> PNone then (Inr data, cache_set cache_key data 1800 w2)
                   else (Inr data, w2)))"

definition get_doc_json :: "string \<Rightarrow> string \<Rightarrow> string \<Rightarrow> world \<Rightarrow> (exn + pyval) \<times> world" where
  "get_doc_json package version p w =
     (let cache_key = ''doc:'' @ package @ ''/'' @ version @ ''/'' @ p;
          (cached, w1) = cache_get cache_key w
      in if cached \<noteq> PNone then (Inr cached, w1)
         else and_then
                (fetch_json (SAGE_BASE @ ''/'' @ package @ ''/'' @ version @ ''/'' @ p) w1)
                (\<lambda>data w2.
                   if data \<noteq> PNone then (Inr data, cache_set cache_key data 600 w2)
                   else (Inr data, w2)))"

subsection \<open>The tools\<close>

text \<open>
  An extractor is handed whatever \<open>doc.get(...)\<close> returned. A string is parsed; a false
  value passes the test \<open>not html\<close> like the empty string; on any other value
  \<open>BeautifulSoup\<close> raises.
\<close>

fun html_arg :: "pyval \<Rightarrow> exn + string" where
  "html_arg (PStr s) = Inr s"
| "html_arg PNone = Inr []"
| "html_arg (PBool b) = (if b then Inl (TypeError ''object of type bool has no len()'') else Inr [])"
| "html_arg (PInt i) =
     (if i \<noteq> 0 then Inl (TypeError ''object of type int has no len()'') else Inr [])"
| "html_arg (PList xs) = (if xs \<noteq> [] then Inl (TypeError ''expected a string'') else Inr [])"
| "html_arg (PDict d) = (if d \<noteq> [] then Inl (TypeError ''expected a string'') else Inr [])"

definition quoted :: "string \<Rightarrow> string" where
  "quoted s = [CHR 0x27] @ s @ [CHR 0x27]"

definition truncation_note :: "bool \<Rightarrow> (string \<times> pyval) list" where
  "truncation_note truncated =
     (if truncated
      then [(''truncated'', PBool True),
            (''note'', PStr ''Output truncated at 100 items. The module has more entries.'')]
      else [])"

definition get_package_info_body ::
  "string \<Rightarrow> string option \<Rightarrow> world \<Rightarrow> (exn + pyval) \<times> world" where
  "get_package_info_body package_name version w =
     and_then (resolve_version package_name version w)
       (\<lambda>ver w1.
          case ver of
            None \<Rightarrow>
              (Inr (error_result (''Package '' @ quoted package_name @ '' not found on sage.ci.dev'')),
               w1)
          | Some ver \<Rightarrow>
              and_then (get_status package_name ver w1)
                (\<lambda>status w2.
                   if status = PNone
                   then (Inr (error_result
                           (''Could not fetch status for '' @ package_name @ ''/'' @ ver)), w2)
                   else
                     and_then (py_get status ''failed'' (PBool True), w2)
                       (\<lambda>failed w3.
                          and_then (get_doc_json package_name ver ''doc/index.html.json'' w3)
                            (\<lambda>doc w4.
                               (sum_then
                                  (if truthy doc
                                   then
                                     sum_then (py_get doc ''preamble'' (PStr ''''))
                                       (\<lambda>preamble.
                                     sum_then (py_get doc ''content'' (PStr ''''))
                                       (\<lambda>content.
                                     sum_then (html_arg preamble)
                                       (\<lambda>preamble_html.
                                     sum_then
                                       (let description =
                                              extract_preamble_text (html_parser w4) preamble_html
                                        in if description = []
                                           then sum_then (html_arg content)
                                                  (\<lambda>content_html. Inr (extract_preamble_text
                                                      (html_parser w4) content_html))
                                           else Inr description)
                                       (\<lambda>description.
                                     sum_then (html_arg content)
                                       (\<lambda>content_html.
                                          Inr (description,
                                               extract_package_libraries (html_parser w4)
                                                 content_html))))))
                                   else Inr ('''', []))
                                  (\<lambda>(description, libraries).
                                     Inr (PDict
                                       [(''package'', PStr package_name),
                                        (''version'', PStr ver),
                                        (''failed'', failed),
                                        (''description'', PStr description),
                                        (''libraries'', PList libraries)])),
                                w4)))))"

definition get_package_info ::
  "string \<Rightarrow> string option \<Rightarrow> world \<Rightarrow> (exn + pyval) \<times> world" where
  "get_package_info package_name version w =
     try_except ''Failed to get package info: '' (get_package_info_body package_name version w)"

text \<open>The part shared by the two module tools: preamble, items and the truncation
  flag of a doc fragment.\<close>

definition doc_items :: "(string \<Rightarrow> node list) \<Rightarrow> pyval \<Rightarrow> exn + (string \<times> pyval list \<times> bool)" where
  "doc_items bs doc =
     sum_then (py_get doc ''preamble'' (PStr ''''))
       (\<lambda>preamble_v.
     sum_then (html_arg preamble_v)
       (\<lambda>preamble_html.
     sum_then (py_get doc ''content'' (PStr ''''))
       (\<lambda>content_v.
     sum_then (html_arg content_v)
       (\<lambda>content_html.
          (let preamble = extract_preamble_text bs preamble_html;
               (specs, truncated) = extract_specs bs content_html 100
           in Inr (preamble, specs, truncated))))))"

definition get_module_doc_body ::
  "string \<Rightarrow> string \<Rightarrow> string option \<Rightarrow> world \<Rightarrow> (exn + pyval) \<times> world" where
  "get_module_doc_body package_name module_path version w =
     and_then (resolve_version package_name version w)
       (\<lambda>ver w1.
          case ver of
            None \<Rightarrow>
              (Inr (error_result (''Package '' @ quoted package_name @ '' not found on sage.ci.dev'')),
               w1)
          | Some ver \<Rightarrow>
              and_then (get_status package_name ver w1)
                (\<lambda>status w2.
                   if status = PNone
                   then (Inr (error_result
                           (''Could not fetch status for '' @ package_name @ ''/'' @ ver)), w2)
                   else
                     and_then (sum_then (py_get status ''files'' (PList [])) str_list, w2)
                       (\<lambda>files w3.
                          case find_module_file files module_path of
                            None \<Rightarrow>
                              (let hint = available_top_level files
                               in (Inr (PDict
                                     [(''error'', PStr (''Module '' @ quoted module_path @
                                         '' not found in '' @ package_name @ ''/'' @ ver)),
                                      (''available_top_level'', PList (map PStr hint))]), w3))
                          | Some matched_file \<Rightarrow>
                              (let json_path = matched_file @ ''.json''
                               in and_then (get_doc_json package_name ver json_path w3)
                                    (\<lambda>doc w4.
                                       if doc = PNone
                                       then (Inr (error_result
                                               (''Could not fetch documentation for '' @
                                                module_path)), w4)
                                       else
                                         (sum_then (doc_items (html_parser w4) doc)
                                            (\<lambda>(preamble, specs, truncated).
                                               Inr (PDict
                                                 ([(''package'', PStr package_name),
                                                   (''version'', PStr ver),
                                                   (''module'', PStr module_path),
                                                   (''preamble'', PStr preamble),
                                                   (''items'', PList specs)]
                                                  @ truncation_note truncated))),
                                          w4))))))"

definition get_module_doc ::
  "string \<Rightarrow> string \<Rightarrow> string option \<Rightarrow> world \<Rightarrow> (exn + pyval) \<times> world" where
  "get_module_doc package_name module_path version w =
     try_except ''Failed to get module doc: ''
       (get_module_doc_body package_name module_path version w)"

subsection \<open>Local odoc tools\<close>

definition SKIP_DIRS :: "string set" where
  "SKIP_DIRS = {''odoc.support''}"

definition path_str :: "path \<Rightarrow> string" where
  "path_str p = join ''/'' p"

definition not_configured :: pyval where
  "not_configured =
     error_result ''Local docs not configured. Start the server with --local-docs <path>.''"

text \<open>The search of \<open>get_local_module_doc\<close> across the library directories. Neither
  this loop nor the function around it stands in a \<open>try\<close> block.\<close>

fun local_loop :: "world \<Rightarrow> path \<Rightarrow> string list \<Rightarrow> path \<Rightarrow> string \<Rightarrow> exn + pyval" where
  "local_loop w docs_root [] suffix module_path =
     Inr (error_result (''Module '' @ quoted module_path @ '' not found in local docs''))"
| "local_loop w docs_root (name # names) suffix module_path =
     (let lib_dir = docs_root @ [name]
      in if \<not> fs_is_dir w lib_dir \<or> name \<in> SKIP_DIRS
         then local_loop w docs_root names suffix module_path
         else (let candidate = lib_dir @ suffix
               in if fs_is_file w candidate
                  then
                    sum_then (fs_read_text w candidate)
                      (\<lambda>text_read.
                    sum_then (json_loads w text_read)
                      (\<lambda>doc.
                    sum_then (doc_items (html_parser w) doc)
                      (\<lambda>(preamble, specs, truncated).
                         Inr (PDict
                           ([(''library'', PStr name),
                             (''module'', PStr module_path),
                             (''preamble'', PStr preamble),
                             (''items'', PList specs)]
                            @ truncation_note truncated)))))
                  else local_loop w docs_root names suffix module_path))"

definition get_local_module_doc :: "string \<Rightarrow> world \<Rightarrow> (exn + pyval) \<times> world" where
  "get_local_module_doc module_path w =
     (case local_docs_root w of
        None \<Rightarrow> (Inr not_configured, w)
      | Some docs_root \<Rightarrow>
          if \<not> fs_is_dir w docs_root
          then (Inr (error_result (''Local docs path does not exist: '' @ path_str docs_root)), w)
          else
            (let parts = split_on CHR ''.'' module_path;
                 suffix = parts @ [''index.html.json'']
             in (sum_then (fs_iterdir w docs_root)
                   (\<lambda>names. local_loop w docs_root (sort names) suffix module_path), w)))"

text \<open>\<open>_scan_local_modules\<close>: the inner loop over the files of one library, and the
  outer loop over the libraries.\<close>

fun scan_files :: "string \<Rightarrow> path list \<Rightarrow> pyval list \<Rightarrow> pyval list" where
  "scan_files library [] results = results"
| "scan_files library (rel # rels) results =
     (let parts = butlast rel
      in if parts = [] then scan_files library rels results
         else scan_files library rels
                (results @ [PDict [(''library'', PStr library),
                                   (''module_path'', PStr (join ''.'' parts))]]))"

fun scan_loop :: "world \<Rightarrow> path \<Rightarrow> string list \<Rightarrow> pyval list \<Rightarrow> exn + pyval list" where
  "scan_loop w docs_root [] results = Inr results"
| "scan_loop w docs_root (name # names) results =
     (let lib_dir = docs_root @ [name]
      in if \<not> fs_is_dir w lib_dir \<or> name \<in> SKIP_DIRS
         then scan_loop w docs_root names results
         else sum_then (fs_rglob w lib_dir)
                (\<lambda>found. scan_loop w docs_root names (scan_files name (sort found) results)))"

definition scan_local_modules :: "world \<Rightarrow> path \<Rightarrow> exn + pyval list" where
  "scan_local_modules w docs_root =
     sum_then (fs_iterdir w docs_root) (\<lambda>names. scan_loop w docs_root (sort names) [])"

definition list_local_modules :: "world \<Rightarrow> (exn + pyval) \<times> world" where
  "list_local_modules w =
     (case local_docs_root w of
        None \<Rightarrow> (Inr not_configured, w)
      | Some docs_root \<Rightarrow>
          (let (cached, w1) = cache_get ''local_modules'' w
           in if cached \<noteq> PNone then (Inr cached, w1)
              else if \<not> fs_is_dir w1 docs_root
              then (Inr (error_result (''Local docs path does not exist: '' @ path_str docs_root)), w1)
              else and_then (scan_local_modules w1 docs_root, w1)
                     (\<lambda>modules w2.
                        (let result = PDict [(''modules'', PList modules),
                                             (''total'', PInt (int (length modules)))]
                         in (Inr result, cache_set ''local_modules'' result 300 w2)))))"

section \<open>Sample worlds\<close>

text \<open>
  A world with an empty cache, no network (every request fails to connect), no local
  docs, and a clock that advances by two seconds at every reading. Its version order
  takes the greatest version in the order of strings.
\<close>

definition sample_json_loads :: "string \<Rightarrow> exn + pyval" where
  "sample_json_loads s =
     (if s = ''{}'' then Inr (PDict [])
      else Inl (JSONDecodeError ''Expecting value: line 1 column 1 (char 0)''))"

definition slow_world :: world where
  "slow_world =
     \<lparr>cache = Map.empty, clock = (\<lambda>n. 2 * real n), ticks = 0,
      session_get = (\<lambda>url. Inl (ClientError ''Cannot connect to host'')), requests = [],
      html_parser = sample_bs, json_loads = sample_json_loads,
      find_latest_version = (\<lambda>vs. if vs = [] then None else Some (last (sort vs))),
      local_docs_root = None, fs_is_dir = (\<lambda>p. False), fs_iterdir = (\<lambda>p. Inr []),
      fs_rglob = (\<lambda>p. Inr []), fs_is_file = (\<lambda>p. False),
      fs_read_text = (\<lambda>p. Inl (OSError ''No such file or directory''))\<rparr>"

text \<open>The same with a clock that advances by a quarter of a second.\<close>

definition quick_world :: world where
  "quick_world = slow_world\<lparr>clock := (\<lambda>n. real n / 4)\<rparr>"

definition offline_world :: world where
  "offline_world = slow_world"

text \<open>A world whose server answers every request with status 404.\<close>

definition not_found_response :: response where
  "not_found_response =
     \<lparr>resp_status = 404, resp_text = Inr ''Not Found'',
      resp_json = Inl (JSONDecodeError ''Expecting value: line 1 column 1 (char 0)'')\<rparr>"

definition not_found_world :: world where
  "not_found_world = slow_world\<lparr>session_get := (\<lambda>url. Inr not_found_response)\<rparr>"

text \<open>
  A world whose server has version 1.0 of a package \<open>demo\<close>: a status record without
  the field \<open>failed\<close> and with three files, and the package page with the flat list of
  modules.
\<close>

definition demo_status :: pyval where
  "demo_status =
     PDict [(''files'', PList [PStr ''doc/lib/index.html'', PStr ''doc/lib/Lwt/index.html'',
                               PStr ''doc/index.html''])]"

definition demo_doc :: pyval where
  "demo_doc = PDict [(''preamble'', PStr ''''), (''content'', PStr modules_page)]"

definition demo_get :: "string \<Rightarrow> exn + response" where
  "demo_get url =
     (if url = ''https://sage.ci.dev/current/p/demo/1.0/status.json''
      then Inr \<lparr>resp_status = 200, resp_text = Inr '''', resp_json = Inr demo_status\<rparr>
      else if url = ''https://sage.ci.dev/current/p/demo/1.0/doc/index.html.json''
      then Inr \<lparr>resp_status = 200, resp_text = Inr '''', resp_json = Inr demo_doc\<rparr>
      else Inr not_found_response)"

definition demo_world :: world where
  "demo_world = slow_world\<lparr>session_get := demo_get\<rparr>"

text \<open>
  A world whose server has the same status record of \<open>demo\<close> 1.0 and loses the
  connection on every other request.
\<close>

definition flaky_get :: "string \<Rightarrow> exn + response" where
  "flaky_get url =
     (if url = ''https://sage.ci.dev/current/p/demo/1.0/status.json''
      then Inr \<lparr>resp_status = 200, resp_text = Inr '''', resp_json = Inr demo_status\<rparr>
      else Inl (ClientError ''Server disconnected''))"

definition flaky_world :: world where
  "flaky_world = slow_world\<lparr>session_get := flaky_get\<rparr>"

text \<open>
  A world with local docs under \<open>docs\<close>: one library \<open>irmin\<close> whose module \<open>Irmin\<close> has
  a file \<open>index.html.json\<close> that was cut short and holds the single character \<open>{\<close>.
\<close>

definition broken_docs_world :: world where
  "broken_docs_world =
     slow_world\<lparr>
       local_docs_root := Some [''docs''],
       fs_is_dir := (\<lambda>p. p = [''docs''] \<or> p = [''docs'', ''irmin'']
                         \<or> p = [''docs'', ''irmin'', ''Irmin'']),
       fs_iterdir := (\<lambda>p. if p = [''docs''] then Inr [''irmin'']
                           else if p = [''docs'', ''irmin''] then Inr [''Irmin'']
                           else if p = [''docs'', ''irmin'', ''Irmin''] then Inr [''index.html.json'']
                           else Inl (OSError ''Not a directory'')),
       fs_rglob := (\<lambda>p. if p = [''docs'', ''irmin''] then Inr [[''Irmin'', ''index.html.json'']]
                         else Inr []),
       fs_is_file := (\<lambda>p. p = [''docs'', ''irmin'', ''Irmin'', ''index.html.json'']),
       fs_read_text := (\<lambda>p. if p = [''docs'', ''irmin'', ''Irmin'', ''index.html.json'']
                             then Inr ''{'' else Inl (OSError ''No such file or directory'')),
       json_loads := (\<lambda>s. if s = ''{''
                           then Inl (JSONDecodeError
                             ''Expecting property name enclosed in double quotes: line 1 column 2 (char 1)'')
                           else sample_json_loads s)\<rparr>"

text \<open>A world with local docs under a directory \<open>docs\<close> that cannot be listed.\<close>

definition unreadable_docs_world :: world where
  "unreadable_docs_world =
     slow_world\<lparr>
       local_docs_root := Some [''docs''],
       fs_is_dir := (\<lambda>p. p = [''docs'']),
       fs_iterdir := (\<lambda>p. Inl (OSError ''[Errno 13] Permission denied: docs''))\<rparr>"

section \<open>Properties\<close>

subsection \<open>The cache\<close>

text \<open>
  C9. \<open>cache_set\<close> stores the value with the expiry instant "time of the call plus ttl".
  A later \<open>cache_get\<close> of a key returns the stored value itself while the time read is
  strictly before the stored expiry, and returns absent (\<open>None\<close>) when the time read is
  at or after the stored expiry, whatever the value is, and when the key has no entry.
\<close>

theorem cache_get_ttl:
  "cache (cache_set key v ttl w) key = Some (v, clock w (ticks w) + ttl) \<and>
   (cache w key = None \<longrightarrow> fst (cache_get key w) = PNone) \<and>
   (cache w key = Some (v, e) \<and> clock w (ticks w) < e \<longrightarrow> fst (cache_get key w) = v) \<and>
   (cache w key = Some (v, e) \<and> e \<le> clock w (ticks w) \<longrightarrow> fst (cache_get key w) = PNone)"
  by (simp add: cache_set_def cache_get_def time_time_def)

theorem cache_get_ttl_witness:
  "cache (cache_set ''k'' (PInt 7) 1 slow_world) ''k'' = Some (PInt 7, 1) \<and>
   fst (cache_get ''k'' slow_world) = PNone \<and>
   fst (cache_get ''k'' (cache_set ''k'' (PInt 7) 1 quick_world)) = PInt 7 \<and>
   fst (cache_get ''k'' (cache_set ''k'' (PInt 7) 1 slow_world)) = PNone"
  using cache_get_ttl [of "''k''" "PInt 7" 1 slow_world]
    cache_get_ttl [where key = "''k''" and v = "PInt 7" and e = 1
      and w = "cache_set ''k'' (PInt 7) 1 quick_world"]
    cache_get_ttl [where key = "''k''" and v = "PInt 7" and e = 1
      and w = "cache_set ''k'' (PInt 7) 1 slow_world"]
  by (simp add: slow_world_def quick_world_def cache_set_def time_time_def)

subsection \<open>String helpers\<close>

lemma startswith_iff: "startswith s p \<longleftrightarrow> (\<exists>r. s = p @ r)"
  unfolding startswith_def
  by (metis append_eq_conv_conj append_take_drop_id)

subsection \<open>The directory listing parser\<close>

lemma parse_directory_listing_sample:
  "parse_directory_listing sample_bs listing_page = [''5.7.0'', ''5.9.1'']"
  by (simp add: parse_directory_listing_def sample_bs_def listing_page_def specs_page_def
      modules_page_def listing_soup_def soup_find_all_def startswith_def endswith_def
      rstrip_chars_def)

subsection \<open>The fetching helpers\<close>

text \<open>
  C2, as the specification states it, fails: with a transport that raises,
  \<open>fetch_text\<close> and \<open>fetch_json\<close> raise too, they do not return an absent result.
\<close>

theorem fetch_transport_failure_raises:
  "session_get offline_world ''https://sage.ci.dev/current/p/'' =
     Inl (ClientError ''Cannot connect to host'') \<and>
   fst (fetch_text ''https://sage.ci.dev/current/p/'' offline_world) \<noteq> Inr None \<and>
   fst (fetch_json ''https://sage.ci.dev/current/p/'' offline_world) \<noteq> Inr PNone"
  by (simp add: offline_world_def slow_world_def fetch_text_def fetch_json_def)

text \<open>
  C2, amended. When a response arrives with a status other than 200, \<open>fetch_text\<close> and
  \<open>fetch_json\<close> return an absent result. When the transport fails, the exception it
  raised leaves \<open>fetch_text\<close> and \<open>fetch_json\<close> unchanged: nothing is returned.
\<close>

theorem fetch_absent_or_raises:
  "(session_get w url = Inr resp \<and> resp_status resp \<noteq> 200 \<longrightarrow>
      fst (fetch_text url w) = Inr None \<and> fst (fetch_json url w) = Inr PNone) \<and>
   (session_get w url = Inl e \<longrightarrow>
      fst (fetch_text url w) = Inl e \<and> fst (fetch_json url w) = Inl e)"
  by (simp add: fetch_text_def fetch_json_def)

theorem fetch_absent_or_raises_witness:
  "fst (fetch_text ''https://sage.ci.dev/current/p/nopkg/'' not_found_world) = Inr None \<and>
   fst (fetch_json ''https://sage.ci.dev/current/p/nopkg/'' not_found_world) = Inr PNone \<and>
   fst (fetch_text ''https://sage.ci.dev/current/p/'' offline_world) =
     Inl (ClientError ''Cannot connect to host'') \<and>
   fst (fetch_json ''https://sage.ci.dev/current/p/'' offline_world) =
     Inl (ClientError ''Cannot connect to host'')"
  using
    fetch_absent_or_raises [where w = not_found_world
      and url = "''https://sage.ci.dev/current/p/nopkg/''"
      and resp = not_found_response]
    fetch_absent_or_raises [where w = offline_world
      and url = "''https://sage.ci.dev/current/p/''"
      and e = "ClientError ''Cannot connect to host''"]
  by (simp add: not_found_world_def not_found_response_def offline_world_def slow_world_def)

subsection \<open>The spec extractor\<close>

lemma specs_loop_take:
  "0 \<le> limit \<Longrightarrow>
   specs_loop limit cs items =
     (if nat limit \<le> length items then (items, cs \<noteq> [])
      else (items @ map spec_item (take (nat limit - length items) cs),
            nat limit - length items < length cs))"
proof (induction cs arbitrary: items)
  case Nil
  then show ?case by simp
next
  case (Cons c rest)
  show ?case
  proof (cases "nat limit \<le> length items")
    case True
    with Cons.prems have "limit \<le> int (length items)" by linarith
    with True show ?thesis by simp
  next
    case False
    then obtain k where k: "nat limit - length items = Suc k"
      by (metis Suc_diff_Suc diff_is_0_eq' linorder_not_le not0_implies_Suc zero_less_diff)
    from False Cons.prems have "\<not> limit \<le> int (length items)" by linarith
    then have "specs_loop limit (c # rest) items = specs_loop limit rest (items @ [spec_item c])"
      by simp
    also have "\<dots> = (if nat limit \<le> Suc (length items) then (items @ [spec_item c], rest \<noteq> [])
      else ((items @ [spec_item c]) @ map spec_item (take (nat limit - Suc (length items)) rest),
            nat limit - Suc (length items) < length rest))"
      using Cons.IH [OF Cons.prems, of "items @ [spec_item c]"] by simp
    also have "\<dots> = (items @ map spec_item (take (Suc k) (c # rest)), Suc k < length (c # rest))"
    proof -
      from k have k': "nat limit - Suc (length items) = k" by arith
      from k have le: "nat limit \<le> Suc (length items) \<longleftrightarrow> k = 0" by arith
      show ?thesis unfolding k' le by (cases k) auto
    qed
    finally show ?thesis using False k by simp
  qed
qed

lemma extract_specs_take:
  assumes "0 \<le> limit"
  shows "extract_specs bs html limit =
     (map spec_item (take (nat limit) (if html = [] then [] else soup_find_all is_spec_div (bs html))),
      nat limit < length (if html = [] then [] else soup_find_all is_spec_div (bs html)))"
proof (cases "html = []")
  case True
  then show ?thesis by (simp add: extract_specs_def)
next
  case False
  show ?thesis
  proof (cases "nat limit = 0")
    case True
    with False show ?thesis
      by (simp add: extract_specs_def specs_loop_take [OF assms])
  next
    case nz: False
    with False show ?thesis
      by (simp add: extract_specs_def specs_loop_take [OF assms])
  qed
qed

text \<open>
  C4, as the specification states it for every limit, fails at a negative limit: no
  list has at most \<open>-1\<close> items, and on a page with no spec container at all, which has
  more containers than \<open>-1\<close>, \<open>truncated\<close> is false.
\<close>

theorem extract_specs_negative_limit:
  "fst (extract_specs sample_bs specs_page (- 1)) = [] \<and>
   \<not> int (length (fst (extract_specs sample_bs specs_page (- 1)))) \<le> - 1 \<and>
   soup_find_all is_spec_div (sample_bs modules_page) = [] \<and>
   (- 1 :: int) < int (length (soup_find_all is_spec_div (sample_bs modules_page))) \<and>
   snd (extract_specs sample_bs modules_page (- 1)) = False"
  by (simp add: extract_specs_def sample_bs_def specs_page_def modules_page_def
      specs_soup_def modules_soup_def soup_find_all_def is_spec_div_def)

text \<open>
  C4, amended. For every HTML fragment and every limit that is not negative,
  \<open>extract_specs\<close> returns the items of the first \<open>limit\<close> spec containers (all of them
  when there are fewer), so at most \<open>limit\<close> items, and \<open>truncated\<close> is true iff there
  are strictly more spec containers than \<open>limit\<close>. With 150 containers and limit 100
  there are 100 items and \<open>truncated\<close> is true; with 50 containers and limit 100 there
  are 50 items and \<open>truncated\<close> is false; with exactly \<open>limit\<close> containers \<open>truncated\<close>
  is false.
\<close>

theorem extract_specs_limit:
  assumes "0 \<le> limit"
    and "cs = (if html = [] then [] else soup_find_all is_spec_div (bs html))"
  shows "fst (extract_specs bs html limit) = map spec_item (take (nat limit) cs) \<and>
         int (length (fst (extract_specs bs html limit))) \<le> limit \<and>
         length (fst (extract_specs bs html limit)) = min (nat limit) (length cs) \<and>
         (snd (extract_specs bs html limit) \<longleftrightarrow> limit < int (length cs)) \<and>
         (length cs = 150 \<and> limit = 100 \<longrightarrow>
            length (fst (extract_specs bs html limit)) = 100 \<and>
            snd (extract_specs bs html limit)) \<and>
         (length cs = 50 \<and> limit = 100 \<longrightarrow>
            length (fst (extract_specs bs html limit)) = 50 \<and>
            \<not> snd (extract_specs bs html limit)) \<and>
         (int (length cs) = limit \<longrightarrow> \<not> snd (extract_specs bs html limit))"
proof -
  have r: "extract_specs bs html limit = (map spec_item (take (nat limit) cs), nat limit < length cs)"
    using extract_specs_take [OF assms(1)] assms(2) by simp
  have "int (min (nat limit) (length cs)) \<le> limit"
    using assms(1) by linarith
  moreover have "nat limit < length cs \<longleftrightarrow> limit < int (length cs)"
    using assms(1) by linarith
  ultimately show ?thesis
    unfolding r by (auto simp: min_def)
qed

theorem extract_specs_limit_witness:
  "length (fst (extract_specs sample_bs specs_page 2)) = 2 \<and>
   snd (extract_specs sample_bs specs_page 2) \<and>
   length (fst (extract_specs sample_bs specs_page 3)) = 3 \<and>
   \<not> snd (extract_specs sample_bs specs_page 3) \<and>
   length (fst (extract_specs sample_bs specs_page 100)) = 3 \<and>
   \<not> snd (extract_specs sample_bs specs_page 100)"
proof -
  have cs: "length (soup_find_all is_spec_div (sample_bs specs_page)) = 3"
    by (simp add: sample_bs_def specs_soup_def soup_find_all_def is_spec_div_def)
  have ne: "specs_page \<noteq> []"
    by (simp add: specs_page_def)
  show ?thesis
    using extract_specs_limit [where limit = 2 and bs = sample_bs and html = specs_page, OF _ refl]
      extract_specs_limit [where limit = 3 and bs = sample_bs and html = specs_page, OF _ refl]
      extract_specs_limit [where limit = 100 and bs = sample_bs and html = specs_page, OF _ refl]
    by (simp add: cs ne)
qed

text \<open>
  C5. A spec container whose identifier is \<open>module-type-X\<close> has kind \<open>module type\<close> and
  name \<open>X\<close>. For every identifier the chain of tests of the source gives the kind and
  the name of the longest-prefix match against the table \<open>val-\<close>, \<open>type-\<close>,
  \<open>module-type-\<close>, \<open>module-\<close>, \<open>exception-\<close>, \<open>class-\<close>; an identifier that no prefix of
  the table starts has kind \<open>other\<close> and its whole self as name. The item of a container
  carries the kind and name of its \<open>id\<close> attribute.
\<close>

theorem categorize_longest_prefix:
  "categorize anchor = longest_prefix_match prefix_table anchor \<and>
   categorize (''module-type-'' @ x) = (''module type'', x) \<and>
   categorize (''module-type-'' @ x) \<noteq> (''module'', ''type-'' @ x) \<and>
   ((\<forall>e \<in> set prefix_table. \<not> startswith anchor (fst e)) \<longrightarrow>
      categorize anchor = (''other'', anchor)) \<and>
   (\<exists>sg d. spec_item c =
      PDict [(''kind'', PStr (fst (categorize (attr_get (fst c) ''id'' '''')))),
             (''name'', PStr (snd (categorize (attr_get (fst c) ''id'' '''')))),
             (''signature'', PStr sg), (''doc'', PStr d)])"
proof -
  have longest: "categorize anchor = longest_prefix_match prefix_table anchor"
  proof -
    consider (v) "startswith anchor ''val-''" | (t) "startswith anchor ''type-''"
      | (mt) "startswith anchor ''module-type-''"
      | (m) "startswith anchor ''module-''" "\<not> startswith anchor ''module-type-''"
      | (e) "startswith anchor ''exception-''" | (c) "startswith anchor ''class-''"
      | (none) "\<not> startswith anchor ''val-''" "\<not> startswith anchor ''type-''"
         "\<not> startswith anchor ''module-type-''" "\<not> startswith anchor ''module-''"
         "\<not> startswith anchor ''exception-''" "\<not> startswith anchor ''class-''"
      by blast
    then show ?thesis
    proof cases
      case v
      then obtain r where "anchor = ''val-'' @ r" by (auto simp: startswith_iff)
      then show ?thesis
        by (simp add: categorize_def longest_prefix_match_def prefix_table_def startswith_def)
    next
      case t
      then obtain r where "anchor = ''type-'' @ r" by (auto simp: startswith_iff)
      then show ?thesis
        by (simp add: categorize_def longest_prefix_match_def prefix_table_def startswith_def)
    next
      case mt
      then obtain r where "anchor = ''module-type-'' @ r" by (auto simp: startswith_iff)
      then show ?thesis
        by (simp add: categorize_def longest_prefix_match_def prefix_table_def startswith_def)
    next
      case m
      then obtain r where r: "anchor = ''module-'' @ r" by (auto simp: startswith_iff)
      with m(2) have "\<not> startswith (''module-'' @ r) ''module-type-''" by simp
      with r show ?thesis
        by (simp add: categorize_def longest_prefix_match_def prefix_table_def startswith_def)
    next
      case e
      then obtain r where "anchor = ''exception-'' @ r" by (auto simp: startswith_iff)
      then show ?thesis
        by (simp add: categorize_def longest_prefix_match_def prefix_table_def startswith_def)
    next
      case c
      then obtain r where "anchor = ''class-'' @ r" by (auto simp: startswith_iff)
      then show ?thesis
        by (simp add: categorize_def longest_prefix_match_def prefix_table_def startswith_def)
    next
      case none
      then show ?thesis
        by (simp add: categorize_def longest_prefix_match_def prefix_table_def)
    qed
  qed
  have mt: "categorize (''module-type-'' @ x) = (''module type'', x)"
    by (simp add: categorize_def startswith_def)
  have other: "(\<forall>e \<in> set prefix_table. \<not> startswith anchor (fst e)) \<longrightarrow>
      categorize anchor = (''other'', anchor)"
    by (simp add: categorize_def prefix_table_def)
  have item: "\<exists>sg d. spec_item c =
      PDict [(''kind'', PStr (fst (categorize (attr_get (fst c) ''id'' '''')))),
             (''name'', PStr (snd (categorize (attr_get (fst c) ''id'' '''')))),
             (''signature'', PStr sg), (''doc'', PStr d)]"
    by (simp add: spec_item_def Let_def split: prod.split)
  from longest mt other item show ?thesis by simp
qed

theorem categorize_longest_prefix_witness:
  "categorize ''Bar'' = (''other'', ''Bar'') \<and>
   categorize ''module-type-Foo'' = (''module type'', ''Foo'') \<and>
   longest_prefix_match prefix_table ''module-type-Foo'' = (''module type'', ''Foo'') \<and>
   fst (extract_specs sample_bs specs_page 100) =
     [PDict [(''kind'', PStr ''module type''), (''name'', PStr ''Foo''),
             (''signature'', PStr ''module type Foo''), (''doc'', PStr ''A signature.'')],
      PDict [(''kind'', PStr ''val''), (''name'', PStr ''x''),
             (''signature'', PStr ''val x : int''), (''doc'', PStr '''')],
      PDict [(''kind'', PStr ''other''), (''name'', PStr ''Bar''),
             (''signature'', PStr ''''), (''doc'', PStr '''')]]"
proof -
  have a: "categorize ''Bar'' = (''other'', ''Bar'')"
  proof -
    have "\<forall>e \<in> set prefix_table. \<not> startswith ''Bar'' (fst e)"
      by (simp add: prefix_table_def startswith_def)
    with categorize_longest_prefix [where anchor = "''Bar''"] show ?thesis
      by blast
  qed
  have b: "categorize ''module-type-Foo'' = (''module type'', ''Foo'')"
  proof -
    have "categorize (''module-type-'' @ ''Foo'') = (''module type'', ''Foo'')"
      using categorize_longest_prefix [of "''Bar''" "''Foo''"] by blast
    then show ?thesis by simp
  qed
  have c: "longest_prefix_match prefix_table ''module-type-Foo'' = (''module type'', ''Foo'')"
  proof -
    have "categorize ''module-type-Foo'' = longest_prefix_match prefix_table ''module-type-Foo''"
      using categorize_longest_prefix [of "''module-type-Foo''"] by blast
    with b show ?thesis by simp
  qed
  have d: "fst (extract_specs sample_bs specs_page 100) =
     [PDict [(''kind'', PStr ''module type''), (''name'', PStr ''Foo''),
             (''signature'', PStr ''module type Foo''), (''doc'', PStr ''A signature.'')],
      PDict [(''kind'', PStr ''val''), (''name'', PStr ''x''),
             (''signature'', PStr ''val x : int''), (''doc'', PStr '''')],
      PDict [(''kind'', PStr ''other''), (''name'', PStr ''Bar''),
             (''signature'', PStr ''''), (''doc'', PStr '''')]]"
    by (simp add: extract_specs_def sample_bs_def specs_page_def specs_soup_def
        soup_find_all_def is_spec_div_def is_spec_doc_div_def spec_item_def categorize_def
        startswith_def find_first_def find_all_def find_next_sibling_def get_text_strip_def
        paragraphs_text_def strip_def lstrip_chars_def rstrip_chars_def is_space_def
        List.map_filter_def)
  from a b c d show ?thesis by simp
qed

subsection \<open>Version resolution\<close>

text \<open>
  C3, as the specification states it for every explicit version string, fails at the
  empty string: \<open>if version:\<close> is false for it, so the resolver looks the versions of
  the package up, here with a fetch that finds no listing, and returns absent.
\<close>

theorem resolve_version_empty_string:
  "fst (resolve_version ''demo'' (Some '''') not_found_world) = Inr None \<and>
   fst (resolve_version ''demo'' (Some '''') not_found_world) \<noteq> Inr (Some '''') \<and>
   requests (snd (resolve_version ''demo'' (Some '''') not_found_world)) =
     [''https://sage.ci.dev/current/p/demo/'']"
  by (simp add: resolve_version_def not_found_world_def slow_world_def cache_get_def
      and_then_def fetch_text_def SAGE_BASE_def not_found_response_def)

text \<open>
  C3, amended. For every package name and every explicitly given version string that
  is not empty, the resolver returns that string verbatim and leaves the world as it
  was: no request is made, the cache is neither read nor written, and the listing of
  the package plays no part. An empty version string is treated as no version given:
  the resolver does with it exactly what it does when the version is absent.
\<close>

theorem resolve_version_explicit:
  "(v \<noteq> [] \<longrightarrow> resolve_version package (Some v) w = (Inr (Some v), w)) \<and>
   resolve_version package (Some []) w = resolve_version package None w"
  by (simp add: resolve_version_def)

theorem resolve_version_explicit_witness:
  "resolve_version ''demo'' (Some ''9.9.9'') not_found_world =
     (Inr (Some ''9.9.9''), not_found_world) \<and>
   resolve_version ''demo'' (Some '''') not_found_world =
     resolve_version ''demo'' None not_found_world"
  using resolve_version_explicit [of "''9.9.9''" "''demo''" not_found_world]
  by simp

subsection \<open>The module file matcher\<close>

lemma split_on_nonempty: "split_on c s \<noteq> []"
  by (induction s) (auto split: list.split)

lemma join_split_on:
  "join [d] (split_on c s) = map (\<lambda>x. if x = c then d else x) s"
proof (induction s)
  case Nil
  show ?case by simp
next
  case (Cons x xs)
  obtain w ws where ws: "split_on c xs = w # ws"
    using split_on_nonempty [of c xs] by (cases "split_on c xs") auto
  show ?case
  proof (cases "x = c")
    case True
    with ws Cons show ?thesis by simp
  next
    case False
    with ws Cons show ?thesis by (cases ws) auto
  qed
qed

lemma exact_loop_find: "exact_loop suffix files = List.find (\<lambda>f. endswith f suffix) files"
  by (induction files) auto

lemma lower_loop_find:
  "lower_loop suffix_lower files = List.find (\<lambda>f. endswith (lower f) suffix_lower) files"
  by (induction files) auto

text \<open>
  C6. With \<open>suffix\<close> the module path with its dots turned into slashes, followed by
  \<open>/index.html\<close>: \<open>find_module_file\<close> returns the first path of the list that ends with
  \<open>suffix\<close>; only when there is none, the first path whose lower-case form ends with the
  lower-case form of \<open>suffix\<close>; and the result is absent iff no path of the list passes
  either test.
\<close>

theorem find_module_file_passes:
  assumes "suffix = map (\<lambda>x. if x = CHR ''.'' then CHR ''/'' else x) module_path @ ''/index.html''"
  shows "find_module_file files module_path =
           (case List.find (\<lambda>f. endswith f suffix) files of
              Some f \<Rightarrow> Some f
            | None \<Rightarrow> List.find (\<lambda>f. endswith (lower f) (lower suffix)) files) \<and>
         (find_module_file files module_path = None \<longleftrightarrow>
            (\<forall>f \<in> set files. \<not> endswith f suffix \<and> \<not> endswith (lower f) (lower suffix)))"
proof -
  have s: "join ''/'' (split_on CHR ''.'' module_path) @ ''/index.html'' = suffix"
    using assms join_split_on [of "CHR ''/''" "CHR ''.''" module_path] by simp
  have eq: "find_module_file files module_path =
           (case List.find (\<lambda>f. endswith f suffix) files of
              Some f \<Rightarrow> Some f
            | None \<Rightarrow> List.find (\<lambda>f. endswith (lower f) (lower suffix)) files)"
    unfolding find_module_file_def Let_def s exact_loop_find lower_loop_find ..
  have "find_module_file files module_path = None \<longleftrightarrow>
      List.find (\<lambda>f. endswith f suffix) files = None \<and>
      List.find (\<lambda>f. endswith (lower f) (lower suffix)) files = None"
    unfolding eq by (simp split: option.split)
  then have "find_module_file files module_path = None \<longleftrightarrow>
      (\<forall>f \<in> set files. \<not> endswith f suffix \<and> \<not> endswith (lower f) (lower suffix))"
    by (auto simp: find_None_iff)
  with eq show ?thesis by simp
qed

theorem find_module_file_passes_witness:
  "find_module_file [''doc/base/Base/index.html'', ''doc/Base/List/index.html''] ''Base.List'' =
     Some ''doc/Base/List/index.html'' \<and>
   find_module_file [''doc/base/Base/index.html'', ''doc/BASE/LIST/index.html''] ''Base.List'' =
     Some ''doc/BASE/LIST/index.html'' \<and>
   find_module_file [''doc/base/list/index.html'', ''doc/Base/List/index.html''] ''Base.List'' =
     Some ''doc/Base/List/index.html'' \<and>
   find_module_file [''doc/base/Base/index.html''] ''Base.List'' = None"
  using
    find_module_file_passes [OF refl,
      where module_path = "''Base.List''" and files = "[''doc/base/Base/index.html'', ''doc/Base/List/index.html'']"]
    find_module_file_passes [OF refl,
      where module_path = "''Base.List''" and files = "[''doc/base/Base/index.html'', ''doc/BASE/LIST/index.html'']"]
    find_module_file_passes [OF refl,
      where module_path = "''Base.List''" and files = "[''doc/base/list/index.html'', ''doc/Base/List/index.html'']"]
    find_module_file_passes [OF refl,
      where module_path = "''Base.List''" and files = "[''doc/base/Base/index.html'']"]
  by (simp add: endswith_def lower_def lower_char_def)

subsection \<open>The hint of get_module_doc\<close>

lemma top_modules_loop_set:
  "top_modules_loop files S = S \<union> set (spec_hint_candidates 2 files)"
proof (induction files arbitrary: S)
  case Nil
  show ?case by (simp add: spec_hint_candidates_def)
next
  case (Cons f fs)
  have len: "2 \<le> length (butlast (segments_after_root f)) \<longleftrightarrow>
      3 \<le> length (split_on CHR ''/'' (drop 4 f))"
    by (auto simp: segments_after_root_def)
  show ?case
    using Cons.IH [of S] Cons.IH [of "insert (split_on CHR ''/'' (drop 4 f) ! 1) S"]
    by (auto simp: spec_hint_candidates_def Let_def len segments_after_root_def)
qed

lemma available_top_level_spec: "available_top_level files = spec_hint 2 files"
  by (simp add: available_top_level_def spec_hint_def top_modules_loop_set
      sorted_list_of_set_sort_remdups)

lemma get_status_demo:
  "get_status ''demo'' ''1.0'' demo_world =
     (Inr demo_status, cache_set ''status:demo/1.0'' demo_status 1800
        (demo_world\<lparr>requests := [''https://sage.ci.dev/current/p/demo/1.0/status.json'']\<rparr>))"
  by (simp add: get_status_def demo_world_def slow_world_def cache_get_def and_then_def
      fetch_json_def SAGE_BASE_def demo_get_def demo_status_def)

text \<open>
  C7, as the specification states it, fails: the path \<open>doc/lib/index.html\<close> has one
  segment between the root and the filename, and the hint list of the specification
  takes its second segment \<open>index.html\<close>; \<open>get_module_doc\<close> leaves that path out.
\<close>

theorem get_module_doc_hint_one_segment:
  "fst (get_module_doc ''demo'' ''Foo'' (Some ''1.0'') demo_world) =
     Inr (PDict [(''error'', PStr (''Module '' @ quoted ''Foo'' @ '' not found in demo/1.0'')),
                 (''available_top_level'', PList [PStr ''Lwt''])]) \<and>
   spec_hint 1 [''doc/lib/index.html'', ''doc/lib/Lwt/index.html'', ''doc/index.html''] =
     [''Lwt'', ''index.html'']"
proof -
  have "available_top_level [''doc/lib/index.html'', ''doc/lib/Lwt/index.html'', ''doc/index.html'']
      = [''Lwt'']"
    by (simp add: available_top_level_spec spec_hint_def spec_hint_candidates_def
        segments_after_root_def startswith_def endswith_def)
  then have "fst (get_module_doc ''demo'' ''Foo'' (Some ''1.0'') demo_world) =
     Inr (PDict [(''error'', PStr (''Module '' @ quoted ''Foo'' @ '' not found in demo/1.0'')),
                 (''available_top_level'', PList [PStr ''Lwt''])])"
    by (simp add: get_module_doc_def get_module_doc_body_def resolve_version_def get_status_demo
        and_then_def sum_then_def try_except_def demo_status_def find_module_file_def
        endswith_def lower_def lower_char_def List.map_filter_def)
  moreover have
    "spec_hint 1 [''doc/lib/index.html'', ''doc/lib/Lwt/index.html'', ''doc/index.html''] =
       [''Lwt'', ''index.html'']"
    by (simp add: spec_hint_def spec_hint_candidates_def segments_after_root_def
        startswith_def endswith_def)
  ultimately show ?thesis by simp
qed

text \<open>
  C7, amended. Whenever \<open>get_module_doc\<close> finds no artifact matching the requested
  module path, the hint list of its error result is built by taking every artifact
  path that starts with \<open>doc/\<close> and ends with \<open>/index.html\<close>, having at least two path
  segments between the root and the filename, extracting the second path segment after
  the root, deduplicating, sorting, and keeping at most the first 30 entries.
\<close>

theorem get_module_doc_hint:
  assumes "resolve_version package_name version w = (Inr (Some ver), w1)"
    and "get_status package_name ver w1 = (Inr status, w2)"
    and "status \<noteq> PNone"
    and "sum_then (py_get status ''files'' (PList [])) str_list = Inr files"
    and "find_module_file files module_path = None"
  shows "get_module_doc package_name module_path version w =
           (Inr (PDict [(''error'', PStr (''Module '' @ quoted module_path @
                           '' not found in '' @ package_name @ ''/'' @ ver)),
                        (''available_top_level'', PList (map PStr (spec_hint 2 files)))]), w2) \<and>
         length (spec_hint 2 files) \<le> 30 \<and>
         sorted (spec_hint 2 files) \<and> distinct (spec_hint 2 files) \<and>
         set (spec_hint 2 files) \<subseteq> set (spec_hint_candidates 2 files)"
proof -
  have "get_module_doc package_name module_path version w =
           (Inr (PDict [(''error'', PStr (''Module '' @ quoted module_path @
                           '' not found in '' @ package_name @ ''/'' @ ver)),
                        (''available_top_level'', PList (map PStr (spec_hint 2 files)))]), w2)"
    using assms
    by (simp add: get_module_doc_def get_module_doc_body_def and_then_def try_except_def
        available_top_level_spec)
  moreover have "sorted (spec_hint 2 files)"
    by (simp add: spec_hint_def sorted_wrt_take)
  moreover have "distinct (spec_hint 2 files)"
    by (simp add: spec_hint_def)
  moreover have "set (spec_hint 2 files) \<subseteq> set (spec_hint_candidates 2 files)"
    using set_take_subset [of 30 "sort (remdups (spec_hint_candidates 2 files))"]
    by (simp add: spec_hint_def)
  ultimately show ?thesis by (simp add: spec_hint_def)
qed

theorem get_module_doc_hint_witness:
  "get_module_doc ''demo'' ''Foo'' (Some ''1.0'') demo_world =
     (Inr (PDict [(''error'', PStr (''Module '' @ quoted ''Foo'' @ '' not found in demo/1.0'')),
                  (''available_top_level'', PList [PStr ''Lwt''])]),
      cache_set ''status:demo/1.0'' demo_status 1800
        (demo_world\<lparr>requests := [''https://sage.ci.dev/current/p/demo/1.0/status.json'']\<rparr>))"
proof -
  have files: "sum_then (py_get demo_status ''files'' (PList [])) str_list =
      Inr [''doc/lib/index.html'', ''doc/lib/Lwt/index.html'', ''doc/index.html'']"
    by (simp add: demo_status_def sum_then_def List.map_filter_def)
  have none: "find_module_file
      [''doc/lib/index.html'', ''doc/lib/Lwt/index.html'', ''doc/index.html''] ''Foo'' = None"
    by (simp add: find_module_file_def endswith_def lower_def lower_char_def)
  have ver: "resolve_version ''demo'' (Some ''1.0'') demo_world = (Inr (Some ''1.0''), demo_world)"
    by (simp add: resolve_version_def)
  have st: "demo_status \<noteq> PNone"
    by (simp add: demo_status_def)
  have hint: "spec_hint 2 [''doc/lib/index.html'', ''doc/lib/Lwt/index.html'', ''doc/index.html'']
      = [''Lwt'']"
    by (simp add: spec_hint_def spec_hint_candidates_def segments_after_root_def
        startswith_def endswith_def)
  show ?thesis
    using get_module_doc_hint [OF ver get_status_demo st files none]
    by (simp add: hint)
qed

subsection \<open>The library extractor\<close>

lemma modules_loop_map_filter:
  "modules_loop lis acc =
     acc @ List.map_filter (\<lambda>li. map_option (module_entry li) (find_first (is_tag ''a'') li)) lis"
  by (induction lis arbitrary: acc) (auto simp: List.map_filter_def split: option.split)

lemma list_modules_map_filter:
  "list_modules el =
     List.map_filter (\<lambda>li. map_option (module_entry li) (find_first (is_tag ''a'') li))
       (find_all (is_tag ''li'') el)"
  by (simp add: list_modules_def modules_loop_map_filter)

lemma libraries_loop_no_h2:
  assumes "\<forall>el \<in> set els. \<not> is_tag ''h2'' el"
  shows "libraries_loop els libraries current_lib =
     (let ms = concat (map list_modules (filter is_list_element els))
      in case current_lib of
           Some l \<Rightarrow> libraries @ [(fst l, snd l @ ms)]
         | None \<Rightarrow> if ms = [] then libraries else libraries @ [(''default'', ms)])"
  using assms
proof (induction els arbitrary: current_lib)
  case Nil
  then show ?case by (simp split: option.split)
next
  case (Cons el els)
  from Cons.prems have rest: "\<forall>el \<in> set els. \<not> is_tag ''h2'' el"
    by simp
  note IH = Cons.IH [OF rest]
  show ?case
  proof (cases el)
    case (NavigableString s)
    then show ?thesis using IH [of current_lib] by (simp add: is_list_element_def)
  next
    case (Comment s)
    then show ?thesis using IH [of current_lib] by (simp add: is_list_element_def)
  next
    case (Tag n attrs cls ch)
    with Cons.prems have n: "n \<noteq> ''h2''" by simp
    show ?thesis
    proof (cases "n = ''ul'' \<or> n = ''dl''")
      case False
      then show ?thesis
        using IH [of current_lib] n Tag by (simp add: is_list_element_def)
    next
      case True
      then have le: "is_list_element el" using Tag by (auto simp: is_list_element_def)
      show ?thesis
      proof (cases "list_modules el = []")
        case True
        then show ?thesis
          using IH [of current_lib] n Tag le \<open>n = ''ul'' \<or> n = ''dl''\<close>
          by (simp add: Let_def)
      next
        case False
        show ?thesis
        proof (cases current_lib)
          case None
          then show ?thesis
            using IH [of "Some (''default'', list_modules el)"] n Tag le False
              \<open>n = ''ul'' \<or> n = ''dl''\<close>
            by (simp add: Let_def)
        next
          case (Some l)
          then show ?thesis
            using IH [of "Some (fst l, snd l @ list_modules el)"] n Tag le False
              \<open>n = ''ul'' \<or> n = ''dl''\<close>
            by (simp add: Let_def)
        qed
      qed
    qed
  qed
qed

text \<open>
  C8. For every HTML fragment whose top-level elements hold no \<open>h2\<close> and whose
  top-level \<open>ul\<close> and \<open>dl\<close> elements list at least one item with a link,
  \<open>extract_package_libraries\<close> returns exactly one library, named \<open>default\<close>, whose
  modules are the linked list items of those elements in document order: for each
  element in turn, one entry for each \<open>li\<close> below it that holds a link.
\<close>

theorem extract_package_libraries_default:
  assumes "html \<noteq> []"
    and "\<forall>el \<in> set (bs html). \<not> is_tag ''h2'' el"
    and "concat (map list_modules (filter is_list_element (bs html))) \<noteq> []"
  shows "extract_package_libraries bs html =
           [PDict [(''name'', PStr ''default''),
                   (''modules'', PList (concat (map list_modules (filter is_list_element (bs html)))))]] \<and>
         (\<forall>el. list_modules el =
            List.map_filter (\<lambda>li. map_option (module_entry li) (find_first (is_tag ''a'') li))
              (find_all (is_tag ''li'') el))"
  using assms libraries_loop_no_h2 [OF assms(2), of "[]" None] list_modules_map_filter
  by (simp add: extract_package_libraries_def lib_dict_def Let_def)

theorem extract_package_libraries_default_witness:
  "extract_package_libraries sample_bs modules_page =
     [PDict [(''name'', PStr ''default''),
             (''modules'', PList
                [PDict [(''name'', PStr ''Lwt''), (''synopsis'', PStr ''Promises'')],
                 PDict [(''name'', PStr ''Lwt_unix''), (''synopsis'', PStr '''')]])]]"
proof -
  have soup: "sample_bs modules_page = modules_soup"
    by (simp add: sample_bs_def modules_page_def specs_page_def)
  have ne: "modules_page \<noteq> []"
    by (simp add: modules_page_def)
  have h2: "\<forall>el \<in> set (sample_bs modules_page). \<not> is_tag ''h2'' el"
    unfolding soup by (simp add: modules_soup_def)
  have ms: "concat (map list_modules (filter is_list_element (sample_bs modules_page))) =
      [PDict [(''name'', PStr ''Lwt''), (''synopsis'', PStr ''Promises'')],
       PDict [(''name'', PStr ''Lwt_unix''), (''synopsis'', PStr '''')]]"
    unfolding soup
    by (simp add: modules_soup_def is_list_element_def
        list_modules_def find_all_def soup_find_all_def find_first_def module_entry_def
        get_text_strip_def strip_def lstrip_chars_def rstrip_chars_def is_space_def
        List.map_filter_def)
  have "concat (map list_modules (filter is_list_element (sample_bs modules_page))) \<noteq> []"
    unfolding ms by simp
  from extract_package_libraries_default [where bs = sample_bs and html = modules_page, OF ne h2 this]
  show ?thesis
    unfolding ms by simp
qed

subsection \<open>The build flag of get_package_info\<close>

lemma get_status_flaky:
  "get_status ''demo'' ''1.0'' flaky_world =
     (Inr demo_status, cache_set ''status:demo/1.0'' demo_status 1800
        (flaky_world\<lparr>requests := [''https://sage.ci.dev/current/p/demo/1.0/status.json'']\<rparr>))"
  by (simp add: get_status_def flaky_world_def slow_world_def cache_get_def and_then_def
      fetch_json_def SAGE_BASE_def flaky_get_def demo_status_def)

text \<open>
  C10, as stated for every package whose status record lacks the field \<open>failed\<close>,
  fails when a later step of the tool raises: here the status record of \<open>demo\<close> has
  no \<open>failed\<close> and the fetch of the package page loses its connection, so
  \<open>get_package_info\<close> returns its error result, which reports no \<open>failed\<close> at all.
\<close>

theorem get_package_info_error_without_flag:
  "fst (get_status ''demo'' ''1.0'' flaky_world) = Inr demo_status \<and>
   py_get demo_status ''failed'' PNone = Inr PNone \<and>
   fst (get_package_info ''demo'' (Some ''1.0'') flaky_world) =
     Inr (error_result ''Failed to get package info: Server disconnected'') \<and>
   py_get (error_result ''Failed to get package info: Server disconnected'') ''failed'' PNone =
     Inr PNone \<and>
   py_get (error_result ''Failed to get package info: Server disconnected'') ''failed'' PNone \<noteq>
     Inr (PBool True)"
proof -
  have doc: "fst (get_doc_json ''demo'' ''1.0'' ''doc/index.html.json''
      (cache_set ''status:demo/1.0'' demo_status 1800
         (flaky_world\<lparr>requests := [''https://sage.ci.dev/current/p/demo/1.0/status.json'']\<rparr>)))
      = Inl (ClientError ''Server disconnected'')"
    by (simp add: get_doc_json_def cache_get_def cache_set_def time_time_def flaky_world_def
        slow_world_def and_then_def fetch_json_def SAGE_BASE_def flaky_get_def)
  then obtain w3 where "get_doc_json ''demo'' ''1.0'' ''doc/index.html.json''
      (cache_set ''status:demo/1.0'' demo_status 1800
         (flaky_world\<lparr>requests := [''https://sage.ci.dev/current/p/demo/1.0/status.json'']\<rparr>))
      = (Inl (ClientError ''Server disconnected''), w3)"
    by (metis fst_conv surj_pair)
  moreover have "demo_status \<noteq> PNone"
    and "py_get demo_status ''failed'' (PBool True) = Inr (PBool True)"
    and "py_get demo_status ''failed'' PNone = Inr PNone"
    by (simp_all add: demo_status_def)
  ultimately show ?thesis
    by (simp add: get_package_info_def get_package_info_body_def resolve_version_def
        get_status_flaky and_then_def try_except_def error_result_def)
qed

text \<open>
  C10, amended. For every package whose fetched status record is a dictionary without
  the field \<open>failed\<close>, \<open>get_package_info\<close> returns a result, and that result reports
  \<open>failed\<close> as true unless a later step inside the tool (the fetch or the extraction
  of the package page) raised an exception; in that case the result is the error
  result \<open>Failed to get package info: ...\<close> of that exception, which reports no
  \<open>failed\<close>. Absence of the flag is never reported as success.
\<close>

theorem get_package_info_failed_default:
  assumes "resolve_version package_name version w = (Inr (Some ver), w1)"
    and "get_status package_name ver w1 = (Inr (PDict status), w2)"
    and "map_of status ''failed'' = None"
  shows "\<exists>r w'. get_package_info package_name version w = (Inr r, w') \<and>
           (py_get r ''failed'' PNone = Inr (PBool True) \<or>
            (\<exists>e. fst (get_package_info_body package_name version w) = Inl e \<and>
                 r = error_result (''Failed to get package info: '' @ str_exn e)))"
proof -
  obtain d w3 where doc: "get_doc_json package_name ver ''doc/index.html.json'' w2 = (d, w3)"
    by (cases "get_doc_json package_name ver ''doc/index.html.json'' w2")
  show ?thesis
  proof (cases d)
    case (Inl e)
    with doc assms show ?thesis
      by (simp add: get_package_info_def get_package_info_body_def and_then_def try_except_def)
  next
    case (Inr v)
    with doc assms show ?thesis
      by (auto simp add: get_package_info_def get_package_info_body_def and_then_def
          try_except_def sum_then_def split: sum.split prod.split)
  qed
qed

theorem get_package_info_failed_default_witness:
  "\<exists>r w'. get_package_info ''demo'' (Some ''1.0'') demo_world = (Inr r, w') \<and>
     py_get r ''failed'' PNone = Inr (PBool True) \<and>
     py_get demo_status ''failed'' PNone = Inr PNone"
proof -
  have ver: "resolve_version ''demo'' (Some ''1.0'') demo_world = (Inr (Some ''1.0''), demo_world)"
    by (simp add: resolve_version_def)
  have st: "get_status ''demo'' ''1.0'' demo_world =
      (Inr (PDict [(''files'', PList [PStr ''doc/lib/index.html'', PStr ''doc/lib/Lwt/index.html'',
                                      PStr ''doc/index.html''])]),
       cache_set ''status:demo/1.0'' demo_status 1800
         (demo_world\<lparr>requests := [''https://sage.ci.dev/current/p/demo/1.0/status.json'']\<rparr>))"
    using get_status_demo by (simp add: demo_status_def)
  have nf: "map_of [(''files'', PList [PStr ''doc/lib/index.html'', PStr ''doc/lib/Lwt/index.html'',
                                      PStr ''doc/index.html''])] ''failed'' = None"
    by simp
  have doc: "fst (get_doc_json ''demo'' ''1.0'' ''doc/index.html.json''
      (cache_set ''status:demo/1.0'' demo_status 1800
         (demo_world\<lparr>requests := [''https://sage.ci.dev/current/p/demo/1.0/status.json'']\<rparr>)))
      = Inr demo_doc"
    by (simp add: get_doc_json_def cache_get_def cache_set_def time_time_def demo_world_def
        slow_world_def and_then_def fetch_json_def SAGE_BASE_def demo_get_def demo_doc_def)
  have body: "\<exists>r. fst (get_package_info_body ''demo'' (Some ''1.0'') demo_world) = Inr r"
  proof -
    obtain w3 where "get_doc_json ''demo'' ''1.0'' ''doc/index.html.json''
      (cache_set ''status:demo/1.0'' demo_status 1800
         (demo_world\<lparr>requests := [''https://sage.ci.dev/current/p/demo/1.0/status.json'']\<rparr>))
      = (Inr demo_doc, w3)"
      using doc by (metis fst_conv surj_pair)
    moreover have "demo_status \<noteq> PNone"
      and "py_get demo_status ''failed'' (PBool True) = Inr (PBool True)"
      by (simp_all add: demo_status_def)
    moreover have "truthy demo_doc"
      and "py_get demo_doc ''preamble'' (PStr '''') = Inr (PStr '''')"
      and "py_get demo_doc ''content'' (PStr '''') = Inr (PStr modules_page)"
      by (simp_all add: demo_doc_def)
    ultimately show ?thesis
      by (simp add: get_package_info_body_def ver get_status_demo and_then_def sum_then_def
          Let_def)
  qed
  from get_package_info_failed_default [OF ver st nf] obtain r w' where
    r: "get_package_info ''demo'' (Some ''1.0'') demo_world = (Inr r, w')" and
    d: "py_get r ''failed'' PNone = Inr (PBool True) \<or>
        (\<exists>e. fst (get_package_info_body ''demo'' (Some ''1.0'') demo_world) = Inl e \<and>
             r = error_result (''Failed to get package info: '' @ str_exn e))"
    by blast
  from d body have "py_get r ''failed'' PNone = Inr (PBool True)"
    by auto
  moreover have "py_get demo_status ''failed'' PNone = Inr PNone"
    by (simp add: demo_status_def)
  ultimately show ?thesis using r by blast
qed

subsection \<open>Exceptions at the boundary of the tools\<close>

text \<open>The tools whose body stands in \<open>try: ... except Exception\<close> return a result
  on every input and in every world.\<close>

lemma try_except_returns: "\<exists>r. fst (try_except msg x) = Inr r"
  by (cases x) (auto simp: try_except_def split: sum.split)

lemma remote_tools_return:
  "(\<exists>r. fst (get_module_doc package_name module_path version w) = Inr r) \<and>
   (\<exists>r. fst (get_package_info package_name version w) = Inr r)"
  by (simp add: get_module_doc_def get_package_info_def try_except_returns)

text \<open>
  C1 does not hold of the two local tools, which have no \<open>try\<close> block. With a module
  file that is not valid JSON, \<open>get_local_module_doc\<close> raises the decoding error of
  \<open>json.loads\<close> to its caller; with a docs directory that cannot be listed,
  \<open>list_local_modules\<close> raises the error of \<open>iterdir\<close>.
\<close>

theorem local_tools_raise:
  "fst (get_local_module_doc ''Irmin'' broken_docs_world) =
     Inl (JSONDecodeError
       ''Expecting property name enclosed in double quotes: line 1 column 2 (char 1)'') \<and>
   fst (list_local_modules unreadable_docs_world) =
     Inl (OSError ''[Errno 13] Permission denied: docs'')"
  by (simp add: get_local_module_doc_def list_local_modules_def scan_local_modules_def
      broken_docs_world_def unreadable_docs_world_def slow_world_def sum_then_def and_then_def
      cache_get_def SKIP_DIRS_def Let_def)

end
